theory Spec2Isabelle
  imports Complex_Main "HOL-Library.Sublist"
begin

section \<open>Data model (src/core/models.py)\<close>

text \<open>
  Python's \<^verbatim>\<open>float\<close>: a finite value, an infinity or NaN. Only the comparison with
  zero is used by the code, so a finite float is represented by the real number it
  denotes (\<^verbatim>\<open>-0.0\<close> and \<^verbatim>\<open>0.0\<close> compare equal and are both \<open>Finite 0\<close>).
\<close>

datatype pyfloat = Finite real | PosInf | NegInf | NaN

text \<open>\<^verbatim>\<open>x >= n\<close> for a float \<open>x\<close> and an int \<open>n\<close>: every comparison with NaN is false.\<close>

fun float_ge_int :: "pyfloat \<Rightarrow> int \<Rightarrow> bool" where
  "float_ge_int (Finite r) n = (real_of_int n \<le> r)"
| "float_ge_int PosInf n = True"
| "float_ge_int NegInf n = False"
| "float_ge_int NaN n = False"

datatype AssetType = STOCK | CRYPTO

record Tracker =
  symbol :: string
  asset_type :: AssetType
  display_name :: string

text \<open>
  \<^verbatim>\<open>Tracker.__post_init__\<close>: an empty (falsy) display name is overwritten with the symbol.
\<close>

definition post_init :: "Tracker \<Rightarrow> Tracker" where
  "post_init self =
     (if display_name self = [] then self\<lparr>display_name := symbol self\<rparr> else self)"

text \<open>
  The constructor the dataclass decorator generates: it stores the three arguments and
  then runs \<^verbatim>\<open>__post_init__\<close>.
\<close>

definition Tracker_new :: "string \<Rightarrow> AssetType \<Rightarrow> string \<Rightarrow> Tracker" where
  "Tracker_new s a d =
     post_init \<lparr>symbol = s, asset_type = a, display_name = d\<rparr>"

text \<open>
  In both modules the name \<^verbatim>\<open>Ticker\<close> is bound to the class imported from
  \<^verbatim>\<open>matplotlib.axis\<close>; such an object is opaque to this code and is represented by
  its identity. A \<^verbatim>\<open>datetime\<close> is a point in time, counted in microseconds.
\<close>

datatype Ticker = TickerRef nat

type_synonym datetime = nat

record PriceSnapshot =
  timestamp :: datetime
  price :: pyfloat
  ticker :: Ticker
  changes :: pyfloat
  change_pct :: pyfloat

definition is_positive :: "PriceSnapshot \<Rightarrow> bool" where
  "is_positive self = float_ge_int (change_pct self) 0"

text \<open>
  A Python \<^verbatim>\<open>str\<close> that leaves ASCII is given as its list of code points:
  U+25B2 is the upward triangle, U+25BC the downward one.
\<close>

definition direction_symbol :: "PriceSnapshot \<Rightarrow> nat list" where
  "direction_symbol self = (if is_positive self then [0x25B2] else [0x25BC])"

section \<open>Events and the bus (src/core/events.py)\<close>

datatype event =
    PriceUpdateEvent PriceSnapshot datetime
  | FetchFailedEvent Ticker string datetime
  | TickerAddedEvent Ticker
  | TickerRemovedEvent Ticker
  | RefreshStartedEvent datetime
  | RefreshCompletedEvent int int datetime
  | OtherObject nat nat

text \<open>
  \<^verbatim>\<open>EventType = type\<close>: the class of an object. \<open>OtherObject c i\<close> is an instance
  \<open>i\<close> of some other class \<open>c\<close>, since \<^verbatim>\<open>publish\<close> takes any object.
\<close>

datatype EventType =
    PriceUpdateEvent_cls
  | FetchFailedEvent_cls
  | TickerAddedEvent_cls
  | TickerRemovedEvent_cls
  | RefreshStartedEvent_cls
  | RefreshCompletedEvent_cls
  | Other_cls nat

fun type_of :: "event \<Rightarrow> EventType" where
  "type_of (PriceUpdateEvent s t) = PriceUpdateEvent_cls"
| "type_of (FetchFailedEvent k r t) = FetchFailedEvent_cls"
| "type_of (TickerAddedEvent k) = TickerAddedEvent_cls"
| "type_of (TickerRemovedEvent k) = TickerRemovedEvent_cls"
| "type_of (RefreshStartedEvent t) = RefreshStartedEvent_cls"
| "type_of (RefreshCompletedEvent s f t) = RefreshCompletedEvent_cls"
| "type_of (OtherObject c i) = Other_cls c"

text \<open>
  \<^verbatim>\<open>EventHandler = Callable[[object], None]\<close>. A handler is a reference to a callable:
  the registry compares handlers (\<^verbatim>\<open>in\<close>, \<^verbatim>\<open>list.remove\<close>), so a handler is
  represented by the identity it is compared by. What the callable does when it is called
  is given separately (\<open>callables\<close> below).
\<close>

type_synonym handler = nat

text \<open>
  \<^verbatim>\<open>self._subscribers: dict[EventType, List[EventHandler]]\<close>. The lock
  \<^verbatim>\<open>self._sub_lock\<close> has no state of its own in a sequential run: every
  \<^verbatim>\<open>with self._sub_lock:\<close> block finds it free and leaves it free.
\<close>

type_synonym registry = "EventType \<rightharpoonup> handler list"

record EventBus =
  subscribers :: registry

text \<open>\<^verbatim>\<open>EventBus.__init__\<close>: the attributes it sets on \<^verbatim>\<open>self\<close>.\<close>

definition EventBus_init :: EventBus where
  "EventBus_init = \<lparr>subscribers = Map.empty\<rparr>"

text \<open>\<^verbatim>\<open>self._subscribers.get(event_type, [])\<close>\<close>

definition dict_get :: "registry \<Rightarrow> EventType \<Rightarrow> handler list" where
  "dict_get d k = (case d k of None \<Rightarrow> [] | Some hs \<Rightarrow> hs)"

text \<open>
  \<^verbatim>\<open>subscribe\<close>: creates the list if the type is absent, then appends the handler.
\<close>

definition subscribe :: "EventBus \<Rightarrow> EventType \<Rightarrow> handler \<Rightarrow> EventBus" where
  "subscribe self event_type h =
     (let d = subscribers self;
          d1 = (if event_type \<notin> dom d then d(event_type \<mapsto> []) else d)
      in self\<lparr>subscribers := d1(event_type \<mapsto> dict_get d1 event_type @ [h])\<rparr>)"

datatype py_error = ValueError

text \<open>
  \<^verbatim>\<open>list.remove(x)\<close>: removes the first element equal to \<open>x\<close>, and raises ValueError
  when there is none.
\<close>

definition list_remove :: "handler list \<Rightarrow> handler \<Rightarrow> py_error + handler list" where
  "list_remove xs x = (if x \<in> set xs then Inr (remove1 x xs) else Inl ValueError)"

text \<open>
  \<^verbatim>\<open>unsubscribe\<close>. The list that \<^verbatim>\<open>get\<close> returns is the one stored in the dict when
  the type is present, so removing from it changes the registry; when the type is absent
  it is a fresh empty list, in which no handler is found.
\<close>

definition unsubscribe :: "EventBus \<Rightarrow> EventType \<Rightarrow> handler \<Rightarrow> py_error + EventBus" where
  "unsubscribe self event_type h =
     (let handlers = dict_get (subscribers self) event_type
      in if h \<in> set handlers
         then (case list_remove handlers h of
                 Inl e \<Rightarrow> Inl e
               | Inr handlers' \<Rightarrow>
                   Inr (self\<lparr>subscribers := (subscribers self)(event_type \<mapsto> handlers')\<rparr>))
         else Inr self)"

text \<open>
  What calling a handler can do. An exception object is given by what the code looks at,
  whether it is an instance of \<^verbatim>\<open>Exception\<close> (the system-exiting exceptions
  KeyboardInterrupt, SystemExit and GeneratorExit derive from \<^verbatim>\<open>BaseException\<close>
  only), and by a tag that tells exception objects apart.
\<close>

datatype exn = Exn (isinstance_Exception: bool) (tag: string)

datatype outcome = Returned | Raised exn

text \<open>
  The code that \<^verbatim>\<open>publish\<close> runs without defining it. All of it is Python code of the
  caller's: it gets the state of the program (the bus, which a handler may subscribe to
  and unsubscribe from, itself included, and the rest \<open>'w\<close>), may change it, and
  returns or raises (a call that never ends is not represented).
  \<^item> \<open>call\<close>: calling the handler with the event;
  \<^item> \<open>format_handler\<close>: \<^verbatim>\<open>{handler}\<close> in the f-string, the handler's \<^verbatim>\<open>__format__\<close>;
  \<^item> \<open>format_exc\<close>: \<^verbatim>\<open>{exc}\<close> in the f-string, the exception's \<^verbatim>\<open>__str__\<close>;
  \<^item> \<open>print_line\<close>: \<^verbatim>\<open>print\<close>, which writes to \<^verbatim>\<open>sys.stdout\<close>.
\<close>

type_synonym 'w state = "EventBus \<times> 'w"

record 'w callables =
  call :: "handler \<Rightarrow> event \<Rightarrow> 'w state \<Rightarrow> outcome \<times> 'w state"
  format_handler :: "handler \<Rightarrow> 'w state \<Rightarrow> (exn + string) \<times> 'w state"
  format_exc :: "exn \<Rightarrow> 'w state \<Rightarrow> (exn + string) \<times> 'w state"
  print_line :: "string \<Rightarrow> 'w state \<Rightarrow> exn option \<times> 'w state"

text \<open>
  What one \<^verbatim>\<open>publish\<close> does: how it ends, the state it leaves, the calls of handlers it
  made (handler and argument, in order) and the lines it printed.
\<close>

record 'w run =
  result :: outcome
  after :: "'w state"
  calls :: "(handler \<times> event) list"
  printed :: "string list"

text \<open>
  The body of the \<^verbatim>\<open>except\<close> clause, line 123: the f-string formats the handler, then
  the exception, and the line is printed. Nothing guards these three steps: an exception
  raised by one of them leaves the clause. The result is that exception, or the line
  printed.
\<close>

definition report :: "'w callables \<Rightarrow> handler \<Rightarrow> exn \<Rightarrow> 'w state \<Rightarrow> (exn + string) \<times> 'w state" where
  "report C h exc s =
     (case format_handler C h s of
        (Inl e, s1) \<Rightarrow> (Inl e, s1)
      | (Inr hn, s1) \<Rightarrow>
          (case format_exc C exc s1 of
             (Inl e, s2) \<Rightarrow> (Inl e, s2)
           | (Inr msg, s2) \<Rightarrow>
               (let line = ''[EventBus] Handler '' @ hn @ '' raised: '' @ msg
                in case print_line C line s2 of
                     (Some e, s3) \<Rightarrow> (Inl e, s3)
                   | (None, s3) \<Rightarrow> (Inr line, s3))))"

text \<open>
  The loop of \<^verbatim>\<open>publish\<close> over the copied list. \<^verbatim>\<open>except Exception\<close> catches an
  instance of \<^verbatim>\<open>Exception\<close> and runs the clause's body, after which the loop goes on;
  an exception of another class, or one raised in the clause's body, leaves the loop and
  \<^verbatim>\<open>publish\<close>.
\<close>

fun dispatch :: "'w callables \<Rightarrow> handler list \<Rightarrow> event \<Rightarrow> 'w state \<Rightarrow> 'w run" where
  "dispatch C [] ev s = \<lparr>result = Returned, after = s, calls = [], printed = []\<rparr>"
| "dispatch C (h # hs) ev s =
     (case call C h ev s of
        (Returned, s1) \<Rightarrow>
          (let r = dispatch C hs ev s1 in r\<lparr>calls := (h, ev) # calls r\<rparr>)
      | (Raised exc, s1) \<Rightarrow>
          if isinstance_Exception exc
          then (case report C h exc s1 of
                  (Inl e, s2) \<Rightarrow>
                    \<lparr>result = Raised e, after = s2, calls = [(h, ev)], printed = []\<rparr>
                | (Inr line, s2) \<Rightarrow>
                    (let r = dispatch C hs ev s2
                     in r\<lparr>calls := (h, ev) # calls r, printed := line # printed r\<rparr>))
          else \<lparr>result = Raised exc, after = s1, calls = [(h, ev)], printed = []\<rparr>)"

text \<open>
  \<^verbatim>\<open>publish\<close>: the list of the event's type is copied first, so the loop runs over the
  handlers registered when the call began, whatever the handlers do to the registry.
\<close>

definition publish :: "'w callables \<Rightarrow> event \<Rightarrow> 'w state \<Rightarrow> 'w run" where
  "publish C ev s =
     (let event_type = type_of ev;
          handlers = dict_get (subscribers (fst s)) event_type
      in dispatch C handlers ev s)"

text \<open>
  The class attribute \<^verbatim>\<open>_instance\<close>, with the bus objects created so far: an object's
  address is its index, and a new object gets an address no earlier object has. (The
  class lock \<^verbatim>\<open>_lock\<close> is free at every call of a sequential run.)
\<close>

record EventBus_class =
  objects :: "EventBus list"
  instance_attr :: "nat option"

text \<open>\<^verbatim>\<open>cls()\<close>: a new object, initialised by \<^verbatim>\<open>__init__\<close>.\<close>

definition new_bus :: "EventBus_class \<Rightarrow> nat \<times> EventBus_class" where
  "new_bus cls = (length (objects cls), cls\<lparr>objects := objects cls @ [EventBus_init]\<rparr>)"

text \<open>\<^verbatim>\<open>instance\<close>, with both checks of the double-checked locking; it returns \<^verbatim>\<open>cls._instance\<close>.\<close>

definition instance_cls :: "EventBus_class \<Rightarrow> nat option \<times> EventBus_class" where
  "instance_cls cls =
     (let cls1 =
        (if instance_attr cls = None
         then (if instance_attr cls = None
               then (let (a, cls') = new_bus cls in cls'\<lparr>instance_attr := Some a\<rparr>)
               else cls)
         else cls)
      in (instance_attr cls1, cls1))"

definition reset :: "EventBus_class \<Rightarrow> EventBus_class" where
  "reset cls = cls\<lparr>instance_attr := None\<rparr>"

text \<open>
  Callables to run the bus on; the rest of the state counts the calls of handler 7.
  Handler 3 unsubscribes itself, at every call, from the type of the event it is called
  with; handler 7 does so at its first call only. Handler 5 raises an \<^verbatim>\<open>Exception\<close>,
  handler 8 one whose \<^verbatim>\<open>__str__\<close> raises, and handler 4 raises \<^verbatim>\<open>SystemExit\<close>,
  which is not an \<^verbatim>\<open>Exception\<close>. Every other handler returns.
\<close>

definition sample :: "nat callables" where
  "sample =
     \<lparr>call = (\<lambda>h ev (b, n).
         if h = 3 then
           (case unsubscribe b (type_of ev) 3 of
              Inl e \<Rightarrow> (Raised (Exn True ''ValueError''), (b, n))
            | Inr b' \<Rightarrow> (Returned, (b', n)))
         else if h = 4 then (Raised (Exn False ''SystemExit''), (b, n))
         else if h = 5 then (Raised (Exn True ''boom''), (b, n))
         else if h = 7 then
           (if n = 0
            then (case unsubscribe b (type_of ev) 7 of
                    Inl e \<Rightarrow> (Raised (Exn True ''ValueError''), (b, Suc n))
                  | Inr b' \<Rightarrow> (Returned, (b', Suc n)))
            else (Returned, (b, Suc n)))
         else if h = 8 then (Raised (Exn True ''unprintable''), (b, n))
         else (Returned, (b, n))),
      format_handler = (\<lambda>h s. (Inr ''<handler>'', s)),
      format_exc = (\<lambda>exc s.
         if tag exc = ''unprintable'' then (Inl (Exn True ''RuntimeError''), s)
         else (Inr (tag exc), s)),
      print_line = (\<lambda>line s. (None, s))\<rparr>"

text \<open>A new bus with the given handlers subscribed, in that order, for one type.\<close>

definition bus_with :: "EventType \<Rightarrow> handler list \<Rightarrow> EventBus" where
  "bus_with T hs = foldl (\<lambda>b h. subscribe b T h) EventBus_init hs"

text \<open>
  A class state the program can be in: \<^verbatim>\<open>_instance\<close> is \<^verbatim>\<open>None\<close> or refers to a bus
  that has been created.
\<close>

definition wf_class :: "EventBus_class \<Rightarrow> bool" where
  "wf_class cls =
     (case instance_attr cls of None \<Rightarrow> True | Some a \<Rightarrow> a < length (objects cls))"

section \<open>What runs when the modules are loaded\<close>

text \<open>
  The claims about what happens when the two modules are loaded need the statements that
  run at load time: the class bodies and the decorators. What such a statement can raise:
\<close>

datatype load_error =
    AttributeError string string
  | TypeError_non_default_after_default string
  | TypeError_no_item_assignment string
  | ModuleNotFoundError string

text \<open>The objects these statements bind, as far as they are told apart here.\<close>

datatype pyval =
  NoneV | LockV | DictV | FunctionV string | ClassmethodV string | ModuleAttrV | InstanceV

type_synonym namespace = "string \<rightharpoonup> pyval"

text \<open>
  A dataclass field as the decorator sees it: its name, and whether the class body gives it
  a default (a value or a \<^verbatim>\<open>default_factory\<close>).
\<close>

record field_decl =
  field_name :: string
  has_default :: bool

definition Tracker_fields :: "field_decl list" where
  "Tracker_fields =
     [\<lparr>field_name = ''symbol'', has_default = False\<rparr>,
      \<lparr>field_name = ''asset_type'', has_default = False\<rparr>,
      \<lparr>field_name = ''display_name'', has_default = False\<rparr>]"

definition PriceSnapshot_fields :: "field_decl list" where
  "PriceSnapshot_fields =
     [\<lparr>field_name = ''timestamp'', has_default = True\<rparr>,
      \<lparr>field_name = ''price'', has_default = False\<rparr>,
      \<lparr>field_name = ''ticker'', has_default = False\<rparr>,
      \<lparr>field_name = ''changes'', has_default = False\<rparr>,
      \<lparr>field_name = ''change_pct'', has_default = False\<rparr>]"

text \<open>
  The check the standard library's \<^verbatim>\<open>dataclass\<close> decorator makes while it builds
  \<^verbatim>\<open>__init__\<close>: it goes through the fields in order and raises TypeError at the first
  field without a default that comes after a field with one.
\<close>

fun init_params :: "bool \<Rightarrow> field_decl list \<Rightarrow> load_error option" where
  "init_params seen_default [] = None"
| "init_params seen_default (f # fs) =
     (if has_default f then init_params True fs
      else if seen_default then Some (TypeError_non_default_after_default (field_name f))
      else init_params seen_default fs)"

definition dataclass :: "field_decl list \<Rightarrow> load_error option" where
  "dataclass fs = init_params False fs"

text \<open>
  The statements of models.py in order, with the names bound so far: the import of
  \<^verbatim>\<open>matplotlib.axis\<close> (whether that package is installed is the environment's), the
  enum, and the two decorated classes. A statement that raises ends the load.
\<close>

definition models_module :: "bool \<Rightarrow> string list \<times> load_error option" where
  "models_module matplotlib_installed =
     (if \<not> matplotlib_installed then ([], Some (ModuleNotFoundError ''matplotlib''))
      else case dataclass Tracker_fields of
             Some e \<Rightarrow> ([''Ticker'', ''AssetType''], Some e)
           | None \<Rightarrow>
               (case dataclass PriceSnapshot_fields of
                  Some e \<Rightarrow> ([''Ticker'', ''AssetType'', ''Tracker''], Some e)
                | None \<Rightarrow> ([''Ticker'', ''AssetType'', ''Tracker'', ''PriceSnapshot''], None)))"

text \<open>
  \<^verbatim>\<open>threading.<name>\<close>: the attribute of the module, or AttributeError. The names the
  \<^verbatim>\<open>threading\<close> module has are a parameter.
\<close>

definition module_getattr :: "string list \<Rightarrow> string \<Rightarrow> load_error + pyval" where
  "module_getattr threading n =
     (if n \<in> set threading then Inr ModuleAttrV else Inl (AttributeError ''threading'' n))"

text \<open>
  Line 56, \<^verbatim>\<open>_lock = ClassVar[threading.lock] = threading.Lock()\<close>: the right-hand side is
  evaluated first, then the targets are assigned from left to right. The second target is
  a subscription: its subscript \<^verbatim>\<open>threading.lock\<close> is evaluated, and then the item
  assignment on \<^verbatim>\<open>ClassVar\<close>, which that object does not support. The result is the
  class namespace where the statement ended, and the exception.
\<close>

definition line_56 :: "string list \<Rightarrow> namespace \<Rightarrow> namespace \<times> load_error option" where
  "line_56 threading ns =
     (case module_getattr threading ''Lock'' of
        Inl e \<Rightarrow> (ns, Some e)
      | Inr f \<Rightarrow>
          (let v = LockV;
               ns1 = ns(''_lock'' \<mapsto> v)
           in case module_getattr threading ''lock'' of
                Inl e \<Rightarrow> (ns1, Some e)
              | Inr k \<Rightarrow> (ns1, Some (TypeError_no_item_assignment ''ClassVar''))))"

text \<open>
  The body of \<^verbatim>\<open>class EventBus\<close>: line 55 binds \<^verbatim>\<open>_instance\<close> (its annotation is not
  evaluated, by \<^verbatim>\<open>from __future__ import annotations\<close>), line 56, and the
  \<^verbatim>\<open>def __init__\<close> of line 58, the only other statement at class level.
\<close>

definition EventBus_class_body :: "string list \<Rightarrow> namespace \<times> load_error option" where
  "EventBus_class_body threading =
     (let ns1 = Map.empty(''_instance'' \<mapsto> NoneV)
      in case line_56 threading ns1 of
           (ns2, Some e) \<Rightarrow> (ns2, Some e)
         | (ns2, None) \<Rightarrow> (ns2(''__init__'' \<mapsto> FunctionV ''__init__''), None))"

text \<open>
  The class statement binds \<^verbatim>\<open>EventBus\<close> in the module when its body has run; the module
  load reaches it when the statements before it (lines 1 to 49) have raised nothing.
\<close>

definition class_EventBus :: "string list \<Rightarrow> string list \<Rightarrow> string list \<times> load_error option" where
  "class_EventBus threading globals =
     (case EventBus_class_body threading of
        (ns, Some e) \<Rightarrow> (globals, Some e)
      | (ns, None) \<Rightarrow> (globals @ [''EventBus''], None))"

definition events_module ::
  "string list \<Rightarrow> string list \<times> load_error option \<Rightarrow> string list \<times> load_error option" where
  "events_module threading before =
     (case before of
        (globals, Some e) \<Rightarrow> (globals, Some e)
      | (globals, None) \<Rightarrow> class_EventBus threading globals)"

text \<open>The public names of CPython's \<^verbatim>\<open>threading\<close> module.\<close>

definition threading_all :: "string list" where
  "threading_all =
     [''get_ident'', ''active_count'', ''Condition'', ''current_thread'', ''enumerate'',
      ''main_thread'', ''TIMEOUT_MAX'', ''Event'', ''Lock'', ''RLock'', ''Semaphore'',
      ''BoundedSemaphore'', ''Thread'', ''Barrier'', ''BrokenBarrierError'', ''Timer'',
      ''ThreadError'', ''ExceptHookArgs'', ''setprofile'', ''settrace'', ''local'',
      ''stack_size'', ''excepthook'', ''get_native_id'', ''getprofile'', ''gettrace'']"

text \<open>
  \<^verbatim>\<open>EventBus.__init__\<close> on the attributes of \<^verbatim>\<open>self\<close>: it sets two attributes; the five
  \<^verbatim>\<open>def\<close> statements indented under it bind local names of the call, beside the
  parameter \<^verbatim>\<open>self\<close>, and all local names are gone when the call returns. The result
  is the attributes of \<^verbatim>\<open>self\<close>, the local names at the end of the call, and the
  exception if one was raised.
\<close>

definition EventBus_init_frame ::
  "string list \<Rightarrow> namespace \<Rightarrow> namespace \<times> namespace \<times> load_error option" where
  "EventBus_init_frame threading self =
     (let frame0 = [''self'' \<mapsto> InstanceV];
          self1 = self(''_subscribers'' \<mapsto> DictV)
      in case module_getattr threading ''Lock'' of
           Inl e \<Rightarrow> (self1, frame0, Some e)
         | Inr f \<Rightarrow>
             (let self2 = self1(''_sub_lock'' \<mapsto> LockV);
                  frame = frame0(''instance'' \<mapsto> ClassmethodV ''instance'',
                                 ''reset'' \<mapsto> ClassmethodV ''reset'',
                                 ''subscribe'' \<mapsto> FunctionV ''subscribe'',
                                 ''unsubscribe'' \<mapsto> FunctionV ''unsubscribe'',
                                 ''publish'' \<mapsto> FunctionV ''publish'')
              in (self2, frame, None)))"

text \<open>
  Attribute lookup. Besides the object's own attributes and those of its class, a name can
  be found on \<^verbatim>\<open>object\<close> and \<^verbatim>\<open>type\<close>: all their attributes have names that start and
  end with two underscores, except \<^verbatim>\<open>type.mro\<close>. Every name of that shape is taken as
  found, which can only make a lookup succeed more often.
\<close>

definition inherited :: "string \<Rightarrow> bool" where
  "inherited n = (n = ''mro'' \<or> (take 2 n = ''__'' \<and> take 2 (rev n) = ''__''))"

definition getattr_class :: "namespace \<Rightarrow> string \<Rightarrow> load_error + unit" where
  "getattr_class cls n =
     (if n \<in> dom cls \<or> inherited n then Inr () else Inl (AttributeError ''EventBus'' n))"

definition getattr_object :: "namespace \<Rightarrow> namespace \<Rightarrow> string \<Rightarrow> load_error + unit" where
  "getattr_object self cls n =
     (if n \<in> dom self \<or> n \<in> dom cls \<or> inherited n then Inr ()
      else Inl (AttributeError ''EventBus'' n))"

definition operations :: "string list" where
  "operations = [''instance'', ''reset'', ''subscribe'', ''unsubscribe'', ''publish'']"

section \<open>Facts about the dispatch loop\<close>

text \<open>
  One pass through the loop body for a handler goes on to the next handler when the call
  returns, or raises an instance of \<^verbatim>\<open>Exception\<close> for which the body of the
  \<^verbatim>\<open>except\<close> clause formats and prints its line without raising.
\<close>

definition passes :: "'w callables \<Rightarrow> handler \<Rightarrow> event \<Rightarrow> 'w state \<Rightarrow> bool" where
  "passes C h ev s =
     (case call C h ev s of
        (Returned, s1) \<Rightarrow> True
      | (Raised exc, s1) \<Rightarrow>
          isinstance_Exception exc
          \<and> (case report C h exc s1 of (Inl e, s2) \<Rightarrow> False | (Inr line, s2) \<Rightarrow> True))"

text \<open>The state after one pass through the loop body.\<close>

definition pass_state :: "'w callables \<Rightarrow> handler \<Rightarrow> event \<Rightarrow> 'w state \<Rightarrow> 'w state" where
  "pass_state C h ev s =
     (case call C h ev s of
        (Returned, s1) \<Rightarrow> s1
      | (Raised exc, s1) \<Rightarrow> if isinstance_Exception exc then snd (report C h exc s1) else s1)"

text \<open>How often a handler is registered for a type.\<close>

definition registrations :: "'w state \<Rightarrow> EventType \<Rightarrow> handler \<Rightarrow> nat" where
  "registrations s T h = count_list (dict_get (subscribers (fst s)) T) h"

lemma dispatch_pass:
  assumes "passes C h ev s"
  shows "result (dispatch C (h # hs) ev s) = result (dispatch C hs ev (pass_state C h ev s))"
    and "after (dispatch C (h # hs) ev s) = after (dispatch C hs ev (pass_state C h ev s))"
    and "calls (dispatch C (h # hs) ev s) = (h, ev) # calls (dispatch C hs ev (pass_state C h ev s))"
  using assms
  by (auto simp: passes_def pass_state_def Let_def
           split: prod.splits outcome.splits sum.splits)

lemma dispatch_all_called:
  "\<forall>h \<in> set hs. \<forall>s. passes C h ev s
   \<Longrightarrow> result (dispatch C hs ev s) = Returned
       \<and> calls (dispatch C hs ev s) = map (\<lambda>h. (h, ev)) hs"
proof (induction hs arbitrary: s)
  case Nil
  then show ?case by simp
next
  case (Cons h hs)
  from Cons.prems have p: "passes C h ev s" by (cases s) simp
  from Cons.prems have rest: "\<forall>g \<in> set hs. \<forall>s. passes C g ev s" by auto
  from Cons.IH [OF rest, of "pass_state C h ev s"] dispatch_pass [OF p, of hs]
  show ?case by simp
qed

lemma dispatch_calls_subset:
  "fst ` set (calls (dispatch C hs ev s)) \<subseteq> set hs"
proof (induction hs arbitrary: s)
  case Nil
  then show ?case by simp
next
  case (Cons h hs)
  obtain oc s' where c: "call C h ev s = (oc, s')" by (cases "call C h ev s")
  show ?case
  proof (cases oc)
    case Returned
    with c Cons.IH [of s'] show ?thesis by (auto simp: Let_def)
  next
    case (Raised exc)
    obtain rp s'' where r: "report C h exc s' = (rp, s'')" by (cases "report C h exc s'")
    from c Raised r Cons.IH [of s''] show ?thesis
      by (cases rp) (auto simp: Let_def)
  qed
qed

lemma dispatch_append:
  "result (dispatch C xs ev s) = Returned
   \<Longrightarrow> result (dispatch C (xs @ ys) ev s) = result (dispatch C ys ev (after (dispatch C xs ev s)))
       \<and> after (dispatch C (xs @ ys) ev s) = after (dispatch C ys ev (after (dispatch C xs ev s)))
       \<and> calls (dispatch C (xs @ ys) ev s)
           = calls (dispatch C xs ev s) @ calls (dispatch C ys ev (after (dispatch C xs ev s)))
       \<and> printed (dispatch C (xs @ ys) ev s)
           = printed (dispatch C xs ev s) @ printed (dispatch C ys ev (after (dispatch C xs ev s)))"
proof (induction xs arbitrary: s)
  case Nil
  then show ?case by simp
next
  case (Cons h xs)
  obtain oc s' where c: "call C h ev s = (oc, s')" by (cases "call C h ev s")
  show ?case
  proof (cases oc)
    case Returned
    with c Cons.prems have "result (dispatch C xs ev s') = Returned" by (simp add: Let_def)
    from Cons.IH [OF this] c Returned show ?thesis by (simp add: Let_def)
  next
    case (Raised exc)
    obtain rp s'' where r: "report C h exc s' = (rp, s'')" by (cases "report C h exc s'")
    from c Raised r Cons.prems have i: "isinstance_Exception exc"
      by (auto split: if_splits)
    from c Raised r i Cons.prems obtain line where l: "rp = Inr line"
      by (cases rp) auto
    from c Raised r i l Cons.prems have "result (dispatch C xs ev s'') = Returned"
      by (simp add: Let_def)
    from Cons.IH [OF this] c Raised r i l show ?thesis by (simp add: Let_def)
  qed
qed

lemma report_line:
  "report C h exc s = (Inr line, s')
   \<Longrightarrow> \<exists>hn msg sa sb. format_handler C h s = (Inr hn, sa) \<and> format_exc C exc sa = (Inr msg, sb)
         \<and> line = ''[EventBus] Handler '' @ hn @ '' raised: '' @ msg"
  by (auto simp: report_def Let_def split: prod.splits sum.splits option.splits)

lemma subscribe_get:
  "dict_get (subscribers (subscribe b T h)) T' =
     (if T' = T then dict_get (subscribers b) T @ [h] else dict_get (subscribers b) T')"
  by (auto simp: subscribe_def dict_get_def Let_def split: option.splits)

lemma subscribe_all_get:
  "dict_get (subscribers (foldl (\<lambda>b h. subscribe b T h) b hs)) T
     = dict_get (subscribers b) T @ hs"
  by (induction hs arbitrary: b) (simp_all add: subscribe_get)

lemma publish_all_called:
  assumes "\<forall>h \<in> set (dict_get (subscribers (fst s)) (type_of ev)). \<forall>s'. passes C h ev s'"
  shows "result (publish C ev s) = Returned
       \<and> calls (publish C ev s)
           = map (\<lambda>h. (h, ev)) (dict_get (subscribers (fst s)) (type_of ev))"
  using dispatch_all_called [OF assms, of s] by (simp add: publish_def)

lemma init_get: "dict_get (subscribers EventBus_init) T = []"
  by (simp add: EventBus_init_def dict_get_def)

lemma bus_with_get: "dict_get (subscribers (bus_with T hs)) T = hs"
  unfolding bus_with_def subscribe_all_get by (simp add: init_get)

lemma count_list_remove1: "count_list (remove1 x xs) x = count_list xs x - 1"
  by (induction xs) auto

lemma unsubscribe_returns: "\<exists>b'. unsubscribe b T h = Inr b'"
  by (simp add: unsubscribe_def list_remove_def Let_def)

lemma unsubscribe_get:
  "unsubscribe b T h = Inr b'
   \<Longrightarrow> dict_get (subscribers b') T = remove1 h (dict_get (subscribers b) T)"
  by (auto simp: unsubscribe_def list_remove_def Let_def dict_get_def remove1_idem
           split: if_splits option.splits)

lemma dispatch_registrations:
  assumes "\<forall>s. registrations (pass_state C h ev s) T h = registrations s T h - 1"
    and "\<forall>g \<in> set hs. g \<noteq> h \<longrightarrow>
           (\<forall>s. registrations (pass_state C g ev s) T h \<le> registrations s T h)"
    and "\<forall>g \<in> set hs. \<forall>s. passes C g ev s"
  shows "registrations (after (dispatch C hs ev s)) T h \<le> registrations s T h - count_list hs h"
  using assms(2,3)
proof (induction hs arbitrary: s)
  case Nil
  then show ?case by simp
next
  case (Cons g hs)
  from Cons.prems(2) have p: "passes C g ev s" by (cases s) simp
  from Cons.prems have p2: "\<forall>g \<in> set hs. g \<noteq> h \<longrightarrow>
           (\<forall>s. registrations (pass_state C g ev s) T h \<le> registrations s T h)"
    and p3: "\<forall>g \<in> set hs. \<forall>s. passes C g ev s" by auto
  note ih = Cons.IH [OF p2 p3, of "pass_state C g ev s"]
  note aft = dispatch_pass(2) [OF p, of hs]
  show ?case
  proof (cases "g = h")
    case True
    from assms(1) have "registrations (pass_state C h ev s) T h = registrations s T h - 1"
      by blast
    with ih True show ?thesis unfolding aft by simp
  next
    case False
    with Cons.prems(1)
    have "registrations (pass_state C g ev s) T h \<le> registrations s T h"
      by (cases s) simp
    with ih False show ?thesis unfolding aft by simp
  qed
qed

lemma sample_call_simps:
  "call sample 2 ev (b, n) = (Returned, (b, n))"
  "call sample 4 ev (b, n) = (Raised (Exn False ''SystemExit''), (b, n))"
  "call sample 5 ev (b, n) = (Raised (Exn True ''boom''), (b, n))"
  "call sample 6 ev (b, n) = (Returned, (b, n))"
  "call sample 7 ev (b, Suc n) = (Returned, (b, Suc (Suc n)))"
  "call sample 8 ev (b, n) = (Raised (Exn True ''unprintable''), (b, n))"
  by (simp_all add: sample_def)

lemma sample_report_simps:
  "report sample h (Exn True ''boom'') s
     = (Inr ''[EventBus] Handler <handler> raised: boom'', s)"
  "report sample h (Exn True ''ValueError'') s
     = (Inr ''[EventBus] Handler <handler> raised: ValueError'', s)"
  "report sample h (Exn True ''unprintable'') s = (Inl (Exn True ''RuntimeError''), s)"
  by (simp_all add: report_def sample_def)

lemma sample_call_3:
  "\<exists>b'. unsubscribe b (type_of ev) 3 = Inr b' \<and> call sample 3 ev (b, n) = (Returned, (b', n))"
proof -
  obtain b' where u: "unsubscribe b (type_of ev) 3 = Inr b'"
    using unsubscribe_returns by blast
  then show ?thesis by (simp add: sample_def)
qed

lemma sample_call_7:
  "\<exists>b'. unsubscribe b (type_of ev) 7 = Inr b' \<and> call sample 7 ev (b, 0) = (Returned, (b', Suc 0))"
proof -
  obtain b' where u: "unsubscribe b (type_of ev) 7 = Inr b'"
    using unsubscribe_returns by blast
  then show ?thesis by (simp add: sample_def)
qed

lemma sample_passes:
  "h \<in> {2, 3, 5, 6} \<Longrightarrow> passes sample h ev s"
proof -
  assume h: "h \<in> {2, 3, 5, 6}"
  obtain b n where s: "s = (b, n)" by (cases s)
  from h sample_call_3 [of b ev n] show ?thesis
    unfolding s by (auto simp: passes_def sample_call_simps sample_report_simps)
qed

text \<open>
  The body of the \<^verbatim>\<open>except\<close> clause is not guarded: handler 8 raises an
  \<^verbatim>\<open>Exception\<close> whose \<^verbatim>\<open>__str__\<close> raises, that second exception leaves
  \<^verbatim>\<open>publish\<close>, and handler 2, registered after handler 8, is not called.
\<close>

lemma unguarded_report_example:
  "result (publish sample (TickerRemovedEvent (TickerRef 1))
             (bus_with TickerRemovedEvent_cls [8, 2], 0)) = Raised (Exn True ''RuntimeError'')
   \<and> map fst (calls (publish sample (TickerRemovedEvent (TickerRef 1))
                        (bus_with TickerRemovedEvent_cls [8, 2], 0))) = [8]"
  by (simp add: publish_def bus_with_get sample_call_simps sample_report_simps)

section \<open>Delivery in subscription order\<close>

text \<open>
  Claim C1, as amended. Subscribing \<open>hs\<close> for \<open>T\<close> appends them, in order, to the
  handlers of \<open>T\<close>; publishing an event of type \<open>T\<close> then calls every handler of \<open>T\<close>,
  in subscription order, each with that event, provided that every call of a handler
  returns or raises an instance of \<^verbatim>\<open>Exception\<close> whose diagnostic line is formatted
  and printed without raising.
\<close>

theorem publish_calls_in_subscription_order:
  assumes "type_of ev = T"
    and "\<forall>h \<in> set (dict_get (subscribers b) T @ hs). \<forall>s. passes C h ev s"
  shows "calls (publish C ev (foldl (\<lambda>b h. subscribe b T h) b hs, w))
         = map (\<lambda>h. (h, ev)) (dict_get (subscribers b) T @ hs)"
  using assms dispatch_all_called [of "dict_get (subscribers b) T @ hs" C ev]
  by (simp add: publish_def subscribe_all_get)

theorem publish_calls_in_subscription_order_witness:
  "calls (publish sample (RefreshCompletedEvent 3 1 0)
        (foldl (\<lambda>b h. subscribe b RefreshCompletedEvent_cls h) EventBus_init [2, 5, 6], 0))
   = [(2, RefreshCompletedEvent 3 1 0), (5, RefreshCompletedEvent 3 1 0),
      (6, RefreshCompletedEvent 3 1 0)]"
proof -
  have t: "type_of (RefreshCompletedEvent 3 1 0) = RefreshCompletedEvent_cls" by simp
  have c: "\<forall>h \<in> set (dict_get (subscribers EventBus_init) RefreshCompletedEvent_cls @ [2, 5, 6]).
             \<forall>s. passes sample h (RefreshCompletedEvent 3 1 0) s"
    using sample_passes by (simp add: init_get)
  show ?thesis
    using publish_calls_in_subscription_order [OF t c, of 0]
    by (simp add: init_get)
qed

text \<open>
  The claim as stated fails: handler 4 raises \<^verbatim>\<open>SystemExit\<close>, the loop is left, and
  handler 2, subscribed after it, is never called.
\<close>

theorem publish_calls_in_subscription_order_counterexample:
  "calls (publish sample (RefreshCompletedEvent 3 1 0)
      (foldl (\<lambda>b h. subscribe b RefreshCompletedEvent_cls h) EventBus_init [4, 2], 0))
   = [(4, RefreshCompletedEvent 3 1 0)]"
  by (simp add: publish_def subscribe_get init_get sample_call_simps)

section \<open>Failure isolation\<close>

text \<open>
  Claim C2, as amended. Let every call of a handler of the snapshot return or raise an
  instance of \<^verbatim>\<open>Exception\<close> whose diagnostic line is formatted and printed without
  raising, and let the handler \<open>h\<close>, at its place in the snapshot between \<open>pre\<close> and
  \<open>post\<close>, raise \<open>exc\<close>. Then \<^verbatim>\<open>publish\<close> catches \<open>exc\<close> and prints, after the lines for
  \<open>pre\<close> and before those for \<open>post\<close>, the line made of the formatted handler and the
  formatted exception; it calls every handler of the snapshot, those after \<open>h\<close> too, and
  returns normally.
\<close>

theorem publish_isolates_exceptions:
  assumes "dict_get (subscribers (fst s)) (type_of ev) = pre @ h # post"
    and "\<forall>g \<in> set (pre @ h # post). \<forall>s'. passes C g ev s'"
    and "call C h ev (after (dispatch C pre ev s)) = (Raised exc, s1)"
  shows "result (publish C ev s) = Returned
       \<and> calls (publish C ev s) = map (\<lambda>g. (g, ev)) (pre @ h # post)
       \<and> (\<exists>hn msg sa sb line s2.
             format_handler C h s1 = (Inr hn, sa) \<and> format_exc C exc sa = (Inr msg, sb)
             \<and> line = ''[EventBus] Handler '' @ hn @ '' raised: '' @ msg
             \<and> report C h exc s1 = (Inr line, s2)
             \<and> printed (publish C ev s)
                 = printed (dispatch C pre ev s) @ line # printed (dispatch C post ev s2))"
proof -
  let ?s0 = "after (dispatch C pre ev s)"
  from assms(2) have all: "\<forall>g \<in> set (dict_get (subscribers (fst s)) (type_of ev)).
      \<forall>s'. passes C g ev s'"
    unfolding assms(1) .
  note whole = publish_all_called [OF all]
  from assms(2) have "\<forall>g \<in> set pre. \<forall>s'. passes C g ev s'" by auto
  from dispatch_all_called [OF this, of s]
  have pre: "result (dispatch C pre ev s) = Returned" by simp
  from assms(2) have "\<forall>s'. passes C h ev s'" by simp
  then have "passes C h ev ?s0" by blast
  with assms(3) obtain line s2 where i: "isinstance_Exception exc"
    and r: "report C h exc s1 = (Inr line, s2)"
    by (auto simp: passes_def split: prod.splits sum.splits)
  from report_line [OF r] obtain hn msg sa sb
    where f: "format_handler C h s1 = (Inr hn, sa)" "format_exc C exc sa = (Inr msg, sb)"
      "line = ''[EventBus] Handler '' @ hn @ '' raised: '' @ msg"
    by blast
  have "printed (dispatch C (h # post) ev ?s0) = line # printed (dispatch C post ev s2)"
    using assms(3) i r by (simp add: Let_def)
  with dispatch_append [OF pre, of "h # post"]
  have "printed (publish C ev s)
          = printed (dispatch C pre ev s) @ line # printed (dispatch C post ev s2)"
    by (simp add: publish_def assms(1))
  with whole f r show ?thesis unfolding assms(1) by blast
qed

theorem publish_isolates_exceptions_witness:
  "result (publish sample (FetchFailedEvent (TickerRef 0) ''HTTP 500'' 0)
             (bus_with FetchFailedEvent_cls [2, 5, 6], 0)) = Returned
   \<and> calls (publish sample (FetchFailedEvent (TickerRef 0) ''HTTP 500'' 0)
              (bus_with FetchFailedEvent_cls [2, 5, 6], 0))
       = [(2, FetchFailedEvent (TickerRef 0) ''HTTP 500'' 0),
          (5, FetchFailedEvent (TickerRef 0) ''HTTP 500'' 0),
          (6, FetchFailedEvent (TickerRef 0) ''HTTP 500'' 0)]
   \<and> printed (publish sample (FetchFailedEvent (TickerRef 0) ''HTTP 500'' 0)
                (bus_with FetchFailedEvent_cls [2, 5, 6], 0))
       = [''[EventBus] Handler <handler> raised: boom'']"
proof -
  let ?ev = "FetchFailedEvent (TickerRef 0) ''HTTP 500'' 0"
  let ?s = "(bus_with FetchFailedEvent_cls [2, 5, 6], 0::nat)"
  have sn: "dict_get (subscribers (fst ?s)) (type_of ?ev) = [2] @ 5 # [6]"
    by (simp add: bus_with_get)
  have c: "\<forall>g \<in> set ([2] @ 5 # [6]). \<forall>s'. passes sample g ?ev s'"
    using sample_passes by simp
  have r: "call sample 5 ?ev (after (dispatch sample [2] ?ev ?s)) = (Raised (Exn True ''boom''), ?s)"
    by (simp add: sample_call_simps)
  have whole: "publish sample ?ev ?s
      = \<lparr>result = Returned, after = ?s,
         calls = [(2, ?ev), (5, ?ev), (6, ?ev)],
         printed = [''[EventBus] Handler <handler> raised: boom'']\<rparr>"
    by (simp add: publish_def bus_with_get sample_call_simps sample_report_simps)
  show ?thesis
    using publish_isolates_exceptions [OF sn c r]
    unfolding whole by simp
qed

text \<open>
  The claim as stated fails: handler 4 raises \<^verbatim>\<open>SystemExit\<close>, which
  \<^verbatim>\<open>except Exception\<close> does not catch. The exception leaves \<^verbatim>\<open>publish\<close>, and
  handler 2, registered after handler 4, is not called.
\<close>

theorem publish_isolates_exceptions_counterexample:
  "result (publish sample (FetchFailedEvent (TickerRef 0) ''HTTP 500'' 0)
             (bus_with FetchFailedEvent_cls [5, 4, 2], 0)) = Raised (Exn False ''SystemExit'')
   \<and> map fst (calls (publish sample (FetchFailedEvent (TickerRef 0) ''HTTP 500'' 0)
                        (bus_with FetchFailedEvent_cls [5, 4, 2], 0))) = [5, 4]"
  by (simp add: publish_def bus_with_get sample_call_simps sample_report_simps)

section \<open>A handler that unsubscribes itself\<close>

text \<open>
  Claim C3, as amended. Let \<open>h\<close> be subscribed for \<open>T\<close> and, each time it is called,
  take one registration of itself for \<open>T\<close> away (as long as it has one); let no other
  handler of the snapshot
  add a registration of \<open>h\<close> for \<open>T\<close>; and let every call of a handler of the snapshot
  return or raise an instance of \<^verbatim>\<open>Exception\<close> whose diagnostic line is formatted and
  printed without raising. Then a publish of an event of type \<open>T\<close> still calls every
  handler of the snapshot taken before the dispatch, \<open>h\<close> is no longer registered for
  \<open>T\<close> afterwards, and the next publish of an event of type \<open>T\<close> (with whatever
  callables) does not call \<open>h\<close>.
\<close>

theorem self_unsubscribe_during_publish:
  assumes "type_of ev = T" and "type_of ev' = T"
    and "h \<in> set (dict_get (subscribers (fst s)) T)"
    and "\<forall>s'. registrations (pass_state C h ev s') T h = registrations s' T h - 1"
    and "\<forall>g \<in> set (dict_get (subscribers (fst s)) T). g \<noteq> h \<longrightarrow>
           (\<forall>s'. registrations (pass_state C g ev s') T h \<le> registrations s' T h)"
    and "\<forall>g \<in> set (dict_get (subscribers (fst s)) T). \<forall>s'. passes C g ev s'"
  shows "calls (publish C ev s) = map (\<lambda>g. (g, ev)) (dict_get (subscribers (fst s)) T)
       \<and> h \<notin> set (dict_get (subscribers (fst (after (publish C ev s)))) T)
       \<and> h \<notin> fst ` set (calls (publish C' ev' (after (publish C ev s))))"
proof -
  let ?hs = "dict_get (subscribers (fst s)) T"
  have called: "calls (publish C ev s) = map (\<lambda>g. (g, ev)) ?hs"
    using publish_all_called [of s ev C] assms(1,6) by simp
  have "registrations (after (dispatch C ?hs ev s)) T h
          \<le> registrations s T h - count_list ?hs h"
    by (rule dispatch_registrations [OF assms(4) assms(5) assms(6)])
  then have "registrations (after (publish C ev s)) T h = 0"
    using assms(1) by (simp add: publish_def registrations_def)
  then have gone: "h \<notin> set (dict_get (subscribers (fst (after (publish C ev s)))) T)"
    by (simp add: registrations_def count_list_0_iff)
  have "fst ` set (calls (publish C' ev' (after (publish C ev s))))
          \<subseteq> set (dict_get (subscribers (fst (after (publish C ev s)))) T)"
    using dispatch_calls_subset [of C' _ ev'] assms(2) by (simp add: publish_def)
  with gone have "h \<notin> fst ` set (calls (publish C' ev' (after (publish C ev s))))"
    by blast
  with called gone show ?thesis by simp
qed

theorem self_unsubscribe_during_publish_witness:
  "calls (publish sample (TickerAddedEvent (TickerRef 7))
            (bus_with TickerAddedEvent_cls [2, 3, 5, 3], 0))
     = [(2, TickerAddedEvent (TickerRef 7)), (3, TickerAddedEvent (TickerRef 7)),
        (5, TickerAddedEvent (TickerRef 7)), (3, TickerAddedEvent (TickerRef 7))]
   \<and> 3 \<notin> set (dict_get (subscribers (fst (after (publish sample (TickerAddedEvent (TickerRef 7))
                     (bus_with TickerAddedEvent_cls [2, 3, 5, 3], 0))))) TickerAddedEvent_cls)
   \<and> 3 \<notin> fst ` set (calls (publish sample (TickerAddedEvent (TickerRef 8))
                     (after (publish sample (TickerAddedEvent (TickerRef 7))
                        (bus_with TickerAddedEvent_cls [2, 3, 5, 3], 0)))))"
proof -
  let ?T = TickerAddedEvent_cls
  let ?ev = "TickerAddedEvent (TickerRef 7)"
  let ?ev' = "TickerAddedEvent (TickerRef 8)"
  let ?s = "(bus_with ?T [2, 3, 5, 3], 0::nat)"
  have t: "type_of ?ev = ?T" and t': "type_of ?ev' = ?T" by simp_all
  have m: "3 \<in> set (dict_get (subscribers (fst ?s)) ?T)"
    by (simp add: bus_with_get)
  have u: "\<forall>s'. registrations (pass_state sample 3 ?ev s') ?T 3 = registrations s' ?T 3 - 1"
  proof
    fix s' :: "nat state"
    obtain b n where s': "s' = (b, n)" by (cases s')
    from sample_call_3 [of b ?ev n] obtain b'
      where b': "unsubscribe b ?T 3 = Inr b'" "call sample 3 ?ev (b, n) = (Returned, (b', n))"
      by auto
    from unsubscribe_get [OF b'(1)] b'(2)
    show "registrations (pass_state sample 3 ?ev s') ?T 3 = registrations s' ?T 3 - 1"
      unfolding s' by (simp add: pass_state_def registrations_def count_list_remove1)
  qed
  have o: "\<forall>g \<in> set (dict_get (subscribers (fst ?s)) ?T). g \<noteq> 3 \<longrightarrow>
           (\<forall>s'. registrations (pass_state sample g ?ev s') ?T 3 \<le> registrations s' ?T 3)"
    by (simp add: bus_with_get pass_state_def sample_call_simps sample_report_simps)
  have c: "\<forall>g \<in> set (dict_get (subscribers (fst ?s)) ?T). \<forall>s'. passes sample g ?ev s'"
    using sample_passes by (simp add: bus_with_get)
  show ?thesis
    using self_unsubscribe_during_publish [OF t t' m u o c, of sample]
    by (simp add: bus_with_get)
qed

text \<open>
  The claim as stated fails. Handler 7, registered twice, unsubscribes itself while it is
  called for the first time; handler 4 then raises \<^verbatim>\<open>SystemExit\<close>, so handler 2, which
  is in the snapshot, is not called by that publish; and the second registration of
  handler 7 is still there, so the next publish calls handler 7 again.
\<close>

theorem self_unsubscribe_during_publish_counterexample:
  "dict_get (subscribers (bus_with RefreshStartedEvent_cls [7, 7, 4, 2])) RefreshStartedEvent_cls
     = [7, 7, 4, 2]
   \<and> map fst (calls (publish sample (RefreshStartedEvent 0)
                        (bus_with RefreshStartedEvent_cls [7, 7, 4, 2], 0))) = [7, 7, 4]
   \<and> map fst (calls (publish sample (RefreshStartedEvent 1)
                        (after (publish sample (RefreshStartedEvent 0)
                           (bus_with RefreshStartedEvent_cls [7, 7, 4, 2], 0))))) = [7, 4]"
proof -
  let ?b = "bus_with RefreshStartedEvent_cls [7, 7, 4, 2]"
  obtain b' where u: "unsubscribe ?b (type_of (RefreshStartedEvent 0)) 7 = Inr b'"
    and c: "call sample 7 (RefreshStartedEvent 0) (?b, 0) = (Returned, (b', Suc 0))"
    using sample_call_7 [of ?b "RefreshStartedEvent 0"] by blast
  from unsubscribe_get [OF u]
  have g: "dict_get (subscribers b') RefreshStartedEvent_cls = [7, 4, 2]"
    by (simp add: bus_with_get)
  have first: "publish sample (RefreshStartedEvent 0) (?b, 0)
      = \<lparr>result = Raised (Exn False ''SystemExit''), after = (b', Suc (Suc 0)),
         calls = [(7, RefreshStartedEvent 0), (7, RefreshStartedEvent 0),
                  (4, RefreshStartedEvent 0)],
         printed = []\<rparr>"
    using c by (simp add: publish_def bus_with_get sample_call_simps)
  show ?thesis
    unfolding first by (simp add: publish_def bus_with_get g sample_call_simps)
qed

section \<open>Unsubscribing what is not registered\<close>

text \<open>
  Claim C6. Unsubscribing a handler that is not in the list of the given event type, or
  from an event type that is not a key of the registry, raises nothing and returns the
  bus exactly as it was.
\<close>

theorem unsubscribe_unregistered_noop:
  "h \<notin> set (dict_get (subscribers self) event_type) \<or> subscribers self event_type = None
   \<Longrightarrow> unsubscribe self event_type h = Inr self"
  by (auto simp: unsubscribe_def dict_get_def)

theorem unsubscribe_unregistered_noop_witness:
  "unsubscribe \<lparr>subscribers = [TickerAddedEvent_cls \<mapsto> [1, 2]]\<rparr> TickerAddedEvent_cls 3
     = Inr \<lparr>subscribers = [TickerAddedEvent_cls \<mapsto> [1, 2]]\<rparr>
   \<and> unsubscribe \<lparr>subscribers = [TickerAddedEvent_cls \<mapsto> [1, 2]]\<rparr> RefreshStartedEvent_cls 1
     = Inr \<lparr>subscribers = [TickerAddedEvent_cls \<mapsto> [1, 2]]\<rparr>"
  using unsubscribe_unregistered_noop
          [of 3 "\<lparr>subscribers = [TickerAddedEvent_cls \<mapsto> [1, 2]]\<rparr>" TickerAddedEvent_cls]
        unsubscribe_unregistered_noop
          [of 1 "\<lparr>subscribers = [TickerAddedEvent_cls \<mapsto> [1, 2]]\<rparr>" RefreshStartedEvent_cls]
  by (simp add: dict_get_def)

section \<open>The singleton\<close>

lemma dict_get_empty: "dict_get Map.empty T = []"
  by (simp add: dict_get_def)

lemma wf_class_initial: "wf_class \<lparr>objects = [], instance_attr = None\<rparr>"
  by (simp add: wf_class_def)

lemma instance_cls_wf: "wf_class cls \<Longrightarrow> wf_class (snd (instance_cls cls))"
  by (auto simp: wf_class_def instance_cls_def new_bus_def Let_def split: option.splits)

lemma reset_wf: "wf_class (reset cls)"
  by (simp add: wf_class_def reset_def)

lemma instance_cls_returns_bus:
  "\<exists>a. fst (instance_cls cls) = Some a \<and> instance_attr (snd (instance_cls cls)) = Some a"
  by (cases "instance_attr cls") (simp_all add: instance_cls_def new_bus_def Let_def)

lemma instance_cls_same:
  "instance_attr cls = Some a \<Longrightarrow> instance_cls cls = (Some a, cls)"
  by (simp add: instance_cls_def)

text \<open>
  Claim C7. When \<^verbatim>\<open>_instance\<close> refers to the bus \<open>old\<close>, a call of \<^verbatim>\<open>reset\<close> followed
  by a call of \<^verbatim>\<open>instance\<close> returns a bus \<open>new\<close> that is a different object, and the
  registry of \<open>new\<close> is empty: it has no key, so no handler for any event type.
\<close>

theorem instance_after_reset:
  assumes "wf_class cls" and "instance_attr cls = Some old"
  shows "\<exists>new. fst (instance_cls (reset cls)) = Some new \<and> new \<noteq> old
           \<and> new < length (objects (snd (instance_cls (reset cls))))
           \<and> subscribers (objects (snd (instance_cls (reset cls))) ! new) = Map.empty
           \<and> (\<forall>T. dict_get (subscribers (objects (snd (instance_cls (reset cls))) ! new)) T = [])"
  using assms
  by (auto simp: wf_class_def instance_cls_def reset_def new_bus_def Let_def
                 EventBus_init_def dict_get_def)

theorem instance_after_reset_witness:
  "fst (instance_cls (reset \<lparr>objects = [bus_with TickerAddedEvent_cls [2, 3]],
                              instance_attr = Some 0\<rparr>)) = Some 1
   \<and> dict_get (subscribers (objects (snd (instance_cls (reset
          \<lparr>objects = [bus_with TickerAddedEvent_cls [2, 3]], instance_attr = Some 0\<rparr>))) ! 1))
        TickerAddedEvent_cls = []
   \<and> dict_get (subscribers (objects (snd (instance_cls (reset
          \<lparr>objects = [bus_with TickerAddedEvent_cls [2, 3]], instance_attr = Some 0\<rparr>))) ! 0))
        TickerAddedEvent_cls = [2, 3]"
proof -
  let ?cls = "\<lparr>objects = [bus_with TickerAddedEvent_cls [2, 3]], instance_attr = Some 0\<rparr>"
  have w: "wf_class ?cls" by (simp add: wf_class_def)
  have i: "instance_attr ?cls = Some 0" by simp
  show ?thesis
    using instance_after_reset [OF w i]
    by (simp add: instance_cls_def reset_def new_bus_def bus_with_get dict_get_empty)
qed

section \<open>Tracker and PriceSnapshot\<close>

text \<open>
  Claim C9, as amended. The display name of a constructed tracker is the supplied one
  when that is non-empty and the symbol otherwise, so it is empty exactly when both the
  supplied display name and the symbol are empty; symbol and asset type are stored as
  given.
\<close>

theorem tracker_display_name:
  "display_name (Tracker_new s a d) = (if d = [] then s else d)
   \<and> (display_name (Tracker_new s a d) = []) = (d = [] \<and> s = [])
   \<and> symbol (Tracker_new s a d) = s
   \<and> asset_type (Tracker_new s a d) = a"
  by (auto simp: Tracker_new_def post_init_def)

text \<open>
  The claim as stated fails: a tracker constructed with an empty symbol and an empty
  display name has an empty display name.
\<close>

theorem tracker_display_name_counterexample:
  "display_name (Tracker_new [] STOCK []) = []"
  by (simp add: Tracker_new_def post_init_def)

text \<open>
  Claim C10. \<^verbatim>\<open>is_positive\<close> is the comparison \<^verbatim>\<open>change_pct >= 0\<close> (true for a
  finite value that is at least zero and for positive infinity, false otherwise); the
  direction symbol is one of two values, chosen by \<^verbatim>\<open>is_positive\<close> alone; and a
  change of exactly zero gives the upward symbol.
\<close>

theorem direction_two_valued:
  "is_positive snap = float_ge_int (change_pct snap) 0
   \<and> is_positive snap
       = (case change_pct snap of Finite r \<Rightarrow> 0 \<le> r | PosInf \<Rightarrow> True
          | NegInf \<Rightarrow> False | NaN \<Rightarrow> False)
   \<and> direction_symbol snap = (if is_positive snap then [0x25B2] else [0x25BC])
   \<and> is_positive (snap\<lparr>change_pct := Finite 0\<rparr>)
   \<and> direction_symbol (snap\<lparr>change_pct := Finite 0\<rparr>) = [0x25B2]"
  by (cases "change_pct snap") (simp_all add: is_positive_def direction_symbol_def)

section \<open>Loading the modules\<close>

lemma line_56_raises: "snd (line_56 threading ns) \<noteq> None"
  by (simp add: line_56_def Let_def split: sum.splits)

lemma line_56_names: "dom (fst (line_56 threading ns)) \<subseteq> insert ''_lock'' (dom ns)"
  by (auto simp: line_56_def Let_def split: sum.splits)

lemma class_body_names: "dom (fst (EventBus_class_body threading)) \<subseteq> {''_instance'', ''_lock''}"
proof -
  obtain ns2 e where l: "line_56 threading (Map.empty(''_instance'' \<mapsto> NoneV)) = (ns2, e)"
    by (cases "line_56 threading (Map.empty(''_instance'' \<mapsto> NoneV))")
  from line_56_raises [of threading "Map.empty(''_instance'' \<mapsto> NoneV)"] l
  obtain x where e: "e = Some x" by auto
  from line_56_names [of threading "Map.empty(''_instance'' \<mapsto> NoneV)"] l
  have "dom ns2 \<subseteq> {''_instance'', ''_lock''}" by auto
  with l e show ?thesis by (simp add: EventBus_class_body_def)
qed

text \<open>
  Claim C8. \<^verbatim>\<open>PriceSnapshot\<close> declares \<^verbatim>\<open>timestamp\<close>, which has a default, before its
  four fields without one, so the \<^verbatim>\<open>dataclass\<close> decorator raises TypeError at
  \<^verbatim>\<open>price\<close> (it accepts \<^verbatim>\<open>Tracker\<close>); loading models.py therefore always ends with an
  exception, and the name \<^verbatim>\<open>PriceSnapshot\<close> is never bound.
\<close>

theorem price_snapshot_rejected:
  "map has_default PriceSnapshot_fields = [True, False, False, False, False]
   \<and> dataclass PriceSnapshot_fields = Some (TypeError_non_default_after_default ''price'')
   \<and> dataclass Tracker_fields = None
   \<and> snd (models_module matplotlib_installed) \<noteq> None
   \<and> ''PriceSnapshot'' \<notin> set (fst (models_module matplotlib_installed))"
  by (simp add: PriceSnapshot_fields_def Tracker_fields_def dataclass_def models_module_def)

text \<open>
  Claim C5. Whatever names the \<^verbatim>\<open>threading\<close> module has, running the body of
  \<^verbatim>\<open>class EventBus\<close> raises at line 56; with the module as it is (it has \<^verbatim>\<open>Lock\<close> and
  no \<^verbatim>\<open>lock\<close>) the exception is the AttributeError for \<^verbatim>\<open>threading.lock\<close>. So loading
  events.py ends with an exception, whatever the statements before the class did, and
  binds no \<^verbatim>\<open>EventBus\<close>.
\<close>

theorem class_body_raises:
  "snd (EventBus_class_body threading) \<noteq> None
   \<and> (''Lock'' \<in> set threading \<and> ''lock'' \<notin> set threading
        \<longrightarrow> snd (EventBus_class_body threading) = Some (AttributeError ''threading'' ''lock''))
   \<and> snd (events_module threading before) \<noteq> None
   \<and> fst (events_module threading before) = fst before"
proof -
  obtain ns2 e where l: "line_56 threading (Map.empty(''_instance'' \<mapsto> NoneV)) = (ns2, e)"
    by (cases "line_56 threading (Map.empty(''_instance'' \<mapsto> NoneV))")
  from line_56_raises [of threading "Map.empty(''_instance'' \<mapsto> NoneV)"] l
  obtain x where e: "e = Some x" by auto
  have a: "snd (EventBus_class_body threading) \<noteq> None"
    using l e by (simp add: EventBus_class_body_def)
  have b: "''Lock'' \<in> set threading \<and> ''lock'' \<notin> set threading
        \<longrightarrow> snd (EventBus_class_body threading) = Some (AttributeError ''threading'' ''lock'')"
    by (simp add: EventBus_class_body_def line_56_def module_getattr_def)
  obtain ns y where c: "EventBus_class_body threading = (ns, Some y)"
    using a by (cases "EventBus_class_body threading") auto
  obtain g r where bf: "before = (g, r)" by (cases before)
  have d: "snd (events_module threading before) \<noteq> None
   \<and> fst (events_module threading before) = fst before"
    using c bf by (cases r) (simp_all add: events_module_def class_EventBus_def)
  from a b d show ?thesis by simp
qed

theorem class_body_raises_witness:
  "''Lock'' \<in> set threading_all \<and> ''lock'' \<notin> set threading_all
   \<and> snd (EventBus_class_body threading_all) = Some (AttributeError ''threading'' ''lock'')
   \<and> events_module threading_all ([''PriceUpdateEvent''], None)
       = ([''PriceUpdateEvent''], Some (AttributeError ''threading'' ''lock''))"
proof -
  have m: "''Lock'' \<in> set threading_all \<and> ''lock'' \<notin> set threading_all"
    by (simp add: threading_all_def)
  have c: "fst (EventBus_class_body threading_all) = [''_instance'' \<mapsto> NoneV, ''_lock'' \<mapsto> LockV]"
    using m by (simp add: EventBus_class_body_def line_56_def module_getattr_def)
  show ?thesis
    using m class_body_raises [of threading_all "([''PriceUpdateEvent''], None)"]
    by (simp add: events_module_def class_EventBus_def split: prod.splits)
qed

text \<open>
  Claim C4. None of \<^verbatim>\<open>instance\<close>, \<^verbatim>\<open>reset\<close>, \<^verbatim>\<open>subscribe\<close>, \<^verbatim>\<open>unsubscribe\<close> and
  \<^verbatim>\<open>publish\<close> is found by attribute lookup: neither in the namespace the class body
  builds, nor in that namespace with the \<^verbatim>\<open>__init__\<close> of line 58 bound as well, nor on
  an object that \<^verbatim>\<open>__init__\<close> has initialised. Each lookup raises AttributeError. The
  five names are local names of a call of \<^verbatim>\<open>__init__\<close>: its local names are these
  five and the parameter \<^verbatim>\<open>self\<close>.
\<close>

theorem operations_not_attributes:
  "list_all (\<lambda>n. getattr_class (fst (EventBus_class_body threading)) n
                    = Inl (AttributeError ''EventBus'' n)
                \<and> getattr_class ((fst (EventBus_class_body threading))
                                    (''__init__'' \<mapsto> FunctionV ''__init__'')) n
                    = Inl (AttributeError ''EventBus'' n)
                \<and> getattr_object (fst (EventBus_init_frame threading Map.empty))
                      ((fst (EventBus_class_body threading))
                         (''__init__'' \<mapsto> FunctionV ''__init__'')) n
                    = Inl (AttributeError ''EventBus'' n)) operations
   \<and> (''Lock'' \<in> set threading
        \<longrightarrow> dom (fst (snd (EventBus_init_frame threading Map.empty)))
              = insert ''self'' (set operations))"
proof -
  have cls: "\<And>n. n \<in> set operations \<Longrightarrow> n \<notin> dom (fst (EventBus_class_body threading))"
    using class_body_names [of threading] by (auto simp: operations_def)
  have ini: "\<And>n. n \<in> set operations \<Longrightarrow> n \<noteq> ''__init__''"
    by (auto simp: operations_def)
  have inh: "\<And>n. n \<in> set operations \<Longrightarrow> \<not> inherited n"
    by (auto simp: operations_def inherited_def)
  have self: "\<And>n. n \<in> set operations
                \<Longrightarrow> n \<notin> dom (fst (EventBus_init_frame threading Map.empty))"
    by (auto simp: operations_def EventBus_init_frame_def Let_def split: sum.splits)
  have fr: "''Lock'' \<in> set threading
        \<longrightarrow> dom (fst (snd (EventBus_init_frame threading Map.empty)))
              = insert ''self'' (set operations)"
    by (auto simp: operations_def EventBus_init_frame_def module_getattr_def Let_def)
  from cls ini inh self fr show ?thesis
    by (simp add: list_all_iff getattr_class_def getattr_object_def)
qed

theorem operations_not_attributes_witness:
  "getattr_class (fst (EventBus_class_body threading_all)) ''publish''
     = Inl (AttributeError ''EventBus'' ''publish'')
   \<and> getattr_object (fst (EventBus_init_frame threading_all Map.empty))
         ((fst (EventBus_class_body threading_all))(''__init__'' \<mapsto> FunctionV ''__init__''))
         ''subscribe''
     = Inl (AttributeError ''EventBus'' ''subscribe'')
   \<and> getattr_object (fst (EventBus_init_frame threading_all Map.empty))
         ((fst (EventBus_class_body threading_all))(''__init__'' \<mapsto> FunctionV ''__init__''))
         ''_subscribers'' = Inr ()
   \<and> dom (fst (snd (EventBus_init_frame threading_all Map.empty)))
       = insert ''self'' (set operations)"
proof -
  have m: "''Lock'' \<in> set threading_all" by (simp add: threading_all_def)
  have s: "getattr_object (fst (EventBus_init_frame threading_all Map.empty))
         ((fst (EventBus_class_body threading_all))(''__init__'' \<mapsto> FunctionV ''__init__''))
         ''_subscribers'' = Inr ()"
    using m by (simp add: getattr_object_def EventBus_init_frame_def module_getattr_def)
  show ?thesis
    using m s operations_not_attributes [of threading_all]
    by (simp add: operations_def)
qed

end
